theory Spec2Isabelle
  imports Complex_Main "HOL-Library.Word" "HOL-Library.Multiset"
begin

section \<open>Bytes and the JavaScript string helpers the services use\<close>

text \<open>
  A \<open>Uint8Array\<close> is a list of 8-bit words. Strings are lists of 8-bit characters; the
  strings the key vault and the pipelines build (hex digests, storage names, chunk file
  names) are ASCII, where this coincides with JavaScript's strings.
\<close>

type_synonym byte = "8 word"
type_synonym bytes = "byte list"

text \<open>\<open>s.endsWith(t)\<close> and \<open>s.startsWith(t)\<close>.\<close>

definition endsWith :: "string \<Rightarrow> string \<Rightarrow> bool" where
  "endsWith s t = (length t \<le> length s \<and> drop (length s - length t) s = t)"

definition startsWith :: "string \<Rightarrow> string \<Rightarrow> bool" where
  "startsWith s t = (take (length t) s = t)"

text \<open>\<open>s.padStart(n, c)\<close> for a one-character pad string.\<close>

definition padStart :: "nat \<Rightarrow> char \<Rightarrow> string \<Rightarrow> string" where
  "padStart n c s = replicate (n - length s) c @ s"

text \<open>The digit characters of \<open>Number.prototype.toString(radix)\<close>: \<open>0-9\<close> then \<open>a-f\<close>.\<close>

definition digit_char :: "nat \<Rightarrow> char" where
  "digit_char d = (if d < 10 then char_of (48 + d) else char_of (87 + d))"

text \<open>\<open>i.toString()\<close> of a non-negative integer.\<close>

function toString10 :: "nat \<Rightarrow> string" where
  "toString10 n = (if n < 10 then [digit_char n] else toString10 (n div 10) @ [digit_char (n mod 10)])"
  by pat_completeness auto
termination
  by (relation "measure id") auto

declare toString10.simps [simp del]

text \<open>\<open>b.toString(16)\<close> of a non-negative integer.\<close>

function toString16 :: "nat \<Rightarrow> string" where
  "toString16 n = (if n < 16 then [digit_char n] else toString16 (n div 16) @ [digit_char (n mod 16)])"
  by pat_completeness auto
termination
  by (relation "measure id") auto

declare toString16.simps [simp del]

text \<open>\<open>Array.from(bytes).map(b => b.toString(16).padStart(2, '0')).join('')\<close>.\<close>

definition to_hex :: "bytes \<Rightarrow> string" where
  "to_hex bs = concat (map (\<lambda>b. padStart 2 (CHR ''0'') (toString16 (unat b))) bs)"

text \<open>
  The value of a hexadecimal digit character, \<open>None\<close> for any other character, and the
  decimal digits \<open>\d\<close> of a regular expression.
\<close>

definition hex_val :: "char \<Rightarrow> nat option" where
  "hex_val c = (let n = (of_char c :: nat) in
     if 48 \<le> n \<and> n \<le> 57 then Some (n - 48)
     else if 97 \<le> n \<and> n \<le> 102 then Some (n - 87)
     else if 65 \<le> n \<and> n \<le> 70 then Some (n - 55)
     else None)"

definition is_digit :: "char \<Rightarrow> bool" where
  "is_digit c = (48 \<le> (of_char c :: nat) \<and> (of_char c :: nat) \<le> 57)"

text \<open>
  \<open>parseInt(s, 16)\<close> on the one- or two-character groups that \<open>.{1,2}\<close> produces: leading
  white space is skipped, then an optional sign, then an optional \<open>0x\<close> prefix, then the
  longest run of hexadecimal digits; no digit at all gives \<open>NaN\<close> (here \<open>None\<close>).
\<close>

definition is_space :: "char \<Rightarrow> bool" where
  "is_space c = ((of_char c :: nat) \<in> {9, 10, 11, 12, 13, 32, 160})"

definition strip0x :: "string \<Rightarrow> string" where
  "strip0x s = (case s of
      a # b # r \<Rightarrow> if a = CHR ''0'' \<and> (b = CHR ''x'' \<or> b = CHR ''X'') then r else s
    | _ \<Rightarrow> s)"

definition hex_digits_value :: "string \<Rightarrow> int option" where
  "hex_digits_value s =
     (let z = takeWhile (\<lambda>c. hex_val c \<noteq> None) s
      in if z = [] then None
         else Some (foldl (\<lambda>a c. 16 * a + int (the (hex_val c))) 0 z))"

definition parseInt16 :: "string \<Rightarrow> int option" where
  "parseInt16 s =
     (let t = dropWhile is_space s
      in case t of
           [] \<Rightarrow> None
         | c # r \<Rightarrow>
             if c = CHR ''-'' then map_option uminus (hex_digits_value (strip0x r))
             else if c = CHR ''+'' then hex_digits_value (strip0x r)
             else hex_digits_value (strip0x t))"

text \<open>Storing a number into a \<open>Uint8Array\<close>: \<open>NaN\<close> becomes 0, anything else wraps modulo 256.\<close>

definition toUint8 :: "int option \<Rightarrow> byte" where
  "toUint8 v = (case v of None \<Rightarrow> 0 | Some i \<Rightarrow> word_of_int i)"

text \<open>
  \<open>s.match(/.{1,2}/g)\<close>: the dot matches every character but a line terminator, so each
  maximal run of such characters is cut into groups of two (the last one may be a single
  character). \<open>groups2\<close> is the list of matches; an empty list stands for \<open>null\<close>.
\<close>

definition is_line_terminator :: "char \<Rightarrow> bool" where
  "is_line_terminator c = ((of_char c :: nat) = 10 \<or> (of_char c :: nat) = 13)"

fun groups2 :: "string \<Rightarrow> string list" where
  "groups2 [] = []"
| "groups2 [a] = (if is_line_terminator a then [] else [[a]])"
| "groups2 (a # b # r) =
     (if is_line_terminator a then groups2 (b # r)
      else if is_line_terminator b then [a] # groups2 r
      else [a, b] # groups2 r)"

datatype error =
    TypeError
  | PlatformFailure
  | PasswordRequired
  | NoMasterKeyFound
  | KeyGenerationFailed
  | BackupVerificationFailed
  | ImportFailed
  | NotInitialized
  | InvalidEncryptedData
  | ChunkEncryptionFailed
  | ChunkDecryptionFailed
  | MetadataNotFound
  | ChunkCountMismatch int nat nat
  | ChunkDecryptFailure nat string error
  | UserCancelled

text \<open>
  \<open>new Uint8Array(hex.match(/.{1,2}/g)!.map(byte => parseInt(byte, 16)))\<close>: when nothing
  matches, \<open>match\<close> returns \<open>null\<close> and the call of \<open>map\<close> on it throws a \<open>TypeError\<close>.
\<close>

definition from_hex :: "string \<Rightarrow> error + bytes" where
  "from_hex s = (let gs = groups2 s in
     if gs = [] then Inl TypeError else Inr (map (\<lambda>g. toUint8 (parseInt16 g)) gs))"


text \<open>\<open>new TextEncoder().encode(s)\<close>: UTF-8, one byte below 128 and two bytes from 128 to 255.\<close>

definition utf8_char :: "char \<Rightarrow> bytes" where
  "utf8_char c = (let n = (of_char c :: nat) in
     if n < 128 then [of_nat n] else [of_nat (192 + n div 64), of_nat (128 + n mod 64)])"

definition encode :: "string \<Rightarrow> bytes" where
  "encode s = concat (map utf8_char s)"

text \<open>\<open>a.slice(i, j)\<close> of a typed array or a blob, for \<open>0 \<le> i\<close> and \<open>0 \<le> j\<close>: both ends are clamped.\<close>

definition slice :: "'a list \<Rightarrow> nat \<Rightarrow> nat \<Rightarrow> 'a list" where
  "slice xs i j = take (j - i) (drop i xs)"

section \<open>The platform: Web Crypto, random numbers, the two stores\<close>

text \<open>
  The platform's crypto provider is a parameter. \<open>aeadEncrypt k iv p\<close> and \<open>aeadDecrypt k iv c\<close>
  are \<open>crypto.subtle.encrypt\<close> and \<open>crypto.subtle.decrypt\<close> with AES-GCM under the raw key
  \<open>k\<close>; \<open>sha256\<close> is \<open>crypto.subtle.digest('SHA-256', _)\<close>; \<open>pbkdf2 pw salt\<close> is
  \<open>importKey\<close> followed by \<open>deriveKey\<close> with PBKDF2, 100000 iterations of SHA-256 and a
  256-bit result. \<open>None\<close> is a rejected promise.
\<close>

record platform =
  aeadEncrypt :: "bytes \<Rightarrow> bytes \<Rightarrow> bytes \<Rightarrow> bytes option"
  aeadDecrypt :: "bytes \<Rightarrow> bytes \<Rightarrow> bytes \<Rightarrow> bytes option"
  sha256 :: "bytes \<Rightarrow> bytes option"
  pbkdf2 :: "bytes \<Rightarrow> bytes \<Rightarrow> bytes"

text \<open>
  \<open>crypto.getRandomValues(new Uint8Array(n))\<close> takes the next \<open>n\<close> bytes of the random
  stream and leaves the rest.
\<close>

type_synonym rng = "nat \<Rightarrow> byte"

definition getRandomValues :: "rng \<Rightarrow> nat \<Rightarrow> bytes \<times> rng" where
  "getRandomValues g n = (map g [0..<n], \<lambda>i. g (i + n))"

text \<open>
  What the surroundings decide during one call: whether \<open>isCryptoAvailable()\<close> holds, whether
  \<open>localStorage.setItem\<close> succeeds, whether the IndexedDB requests of the call succeed, and
  the value of \<open>Date.now()\<close>. When IndexedDB does not work, \<open>indexedDBThrows\<close> tells how
  it fails: \<open>indexedDB.open\<close> throws at once, which rejects the promise it is called in, or
  the failure arrives at the \<open>onerror\<close> handlers.
\<close>

record env =
  cryptoAvailable :: bool
  localStorageWritable :: bool
  indexedDBWorks :: bool
  indexedDBThrows :: bool
  now :: nat

text \<open>
  The persisted record, \<open>JSON.stringify({encrypted, data, timestamp, version, imported})\<close>.
  The two stores hold JSON text that only this class writes, so a stored value is modelled by
  the object it parses to; \<open>k_imported\<close> is \<open>False\<close> where the field is absent.
\<close>

record keyInfo =
  k_encrypted :: bool
  k_data :: string
  k_timestamp :: nat
  k_version :: string
  k_imported :: bool

type_synonym storage = "string \<rightharpoonup> keyInfo"

record keystore =
  localStorage :: storage
  indexedDB :: storage

definition STORAGE_PREFIX :: string where
  "STORAGE_PREFIX = ''secure_file_splitter_''"

definition MASTER_KEY_ID :: string where
  "MASTER_KEY_ID = ''master_key''"

definition KEY_VERSION :: string where
  "KEY_VERSION = ''v1''"

text \<open>The two record names: \<open>`${STORAGE_PREFIX}${MASTER_KEY_ID}_${KEY_VERSION}`\<close> and its encrypted variant.\<close>

definition plainKeyName :: string where
  "plainKeyName = STORAGE_PREFIX @ MASTER_KEY_ID @ ''_'' @ KEY_VERSION"

definition encryptedKeyName :: string where
  "encryptedKeyName = STORAGE_PREFIX @ MASTER_KEY_ID @ ''_encrypted_'' @ KEY_VERSION"

definition emptyStore :: keystore where
  "emptyStore = \<lparr>localStorage = Map.empty, indexedDB = Map.empty\<rparr>"

text \<open>An optional password is truthy when it is given and not the empty string.\<close>

definition truthy :: "string option \<Rightarrow> bool" where
  "truthy pw = (case pw of None \<Rightarrow> False | Some s \<Rightarrow> s \<noteq> [])"

section \<open>SecureKeyManager\<close>

definition storeInIndexedDB :: "env \<Rightarrow> string \<Rightarrow> keyInfo \<Rightarrow> keystore \<Rightarrow> error + keystore" where
  "storeInIndexedDB e key d st =
     (if indexedDBWorks e then Inr (st\<lparr>indexedDB := (indexedDB st)(key \<mapsto> d)\<rparr>)
      else Inl PlatformFailure)"

text \<open>
  Every failure that reaches a handler of the read resolves to \<open>null\<close>; a throw of
  \<open>indexedDB.open\<close> rejects the promise.
\<close>

definition getDataFromIndexedDB :: "env \<Rightarrow> string \<Rightarrow> keystore \<Rightarrow> error + keyInfo option" where
  "getDataFromIndexedDB e key st =
     (if indexedDBWorks e then Inr (indexedDB st key)
      else if indexedDBThrows e then Inl PlatformFailure
      else Inr None)"

text \<open>
  Every failure that reaches a handler of the clear resolves silently, with the object store
  as it was; a throw of \<open>indexedDB.open\<close> rejects the promise.
\<close>

definition clearIndexedDB :: "env \<Rightarrow> keystore \<Rightarrow> error + keystore" where
  "clearIndexedDB e st =
     (if indexedDBWorks e then Inr (st\<lparr>indexedDB := Map.empty\<rparr>)
      else if indexedDBThrows e then Inl PlatformFailure
      else Inr st)"


text \<open>
  \<open>encryptKeyWithPassword\<close>: a fresh 16-byte salt, the derived key, a fresh 12-byte IV, and
  the hex text of \<open>salt @ iv @ ciphertext\<close>.
\<close>

definition encryptKeyWithPassword :: "platform \<Rightarrow> rng \<Rightarrow> bytes \<Rightarrow> string \<Rightarrow> error + string" where
  "encryptKeyWithPassword P g keyMaterial password =
     (let (salt, g1) = getRandomValues g 16;
          derivedKey = pbkdf2 P (encode password) salt;
          (iv, g2) = getRandomValues g1 12
      in case aeadEncrypt P derivedKey iv keyMaterial of
           None \<Rightarrow> Inl PlatformFailure
         | Some encrypted \<Rightarrow> Inr (to_hex (salt @ iv @ encrypted)))"

definition decryptKeyWithPassword :: "platform \<Rightarrow> string \<Rightarrow> string \<Rightarrow> error + bytes" where
  "decryptKeyWithPassword P encryptedHex password =
     (case from_hex encryptedHex of
        Inl err \<Rightarrow> Inl err
      | Inr encrypted \<Rightarrow>
          (let salt = slice encrypted 0 16;
               iv = slice encrypted 16 28;
               ciphertext = drop 28 encrypted;
               derivedKey = pbkdf2 P (encode password) salt
           in case aeadDecrypt P derivedKey iv ciphertext of
                None \<Rightarrow> Inl PlatformFailure
              | Some decrypted \<Rightarrow> Inr decrypted))"

text \<open>
  \<open>parseStoredKey\<close>: the body of its \<open>try\<close> block first, then the function, whose \<open>catch\<close>
  turns every exception of the body into \<open>null\<close>.
\<close>

definition parseStoredKey_try :: "platform \<Rightarrow> keyInfo \<Rightarrow> string option \<Rightarrow> error + bytes option" where
  "parseStoredKey_try P keyInfo password =
     (if k_encrypted keyInfo \<and> truthy password then
        (case decryptKeyWithPassword P (k_data keyInfo) (the password) of
           Inl err \<Rightarrow> Inl err | Inr k \<Rightarrow> Inr (Some k))
      else if \<not> k_encrypted keyInfo then
        (case from_hex (k_data keyInfo) of Inl err \<Rightarrow> Inl err | Inr k \<Rightarrow> Inr (Some k))
      else if k_encrypted keyInfo \<and> \<not> truthy password then Inl PasswordRequired
      else Inr None)"

definition parseStoredKey :: "platform \<Rightarrow> keyInfo \<Rightarrow> string option \<Rightarrow> bytes option" where
  "parseStoredKey P stored password =
     (case parseStoredKey_try P stored password of Inl err \<Rightarrow> None | Inr r \<Rightarrow> r)"

text \<open>The loop of \<open>getFromLocalStorage\<close> and \<open>getFromIndexedDB\<close> over the two record names.\<close>

fun firstParsed :: "platform \<Rightarrow> (string \<Rightarrow> keyInfo option) \<Rightarrow> string option \<Rightarrow> string list \<Rightarrow> bytes option" where
  "firstParsed P getItem password [] = None"
| "firstParsed P getItem password (key # keys) =
     (case getItem key of
        None \<Rightarrow> firstParsed P getItem password keys
      | Some stored \<Rightarrow>
          (case parseStoredKey P stored password of
             Some result \<Rightarrow> Some result
           | None \<Rightarrow> firstParsed P getItem password keys))"

definition getFromLocalStorage :: "platform \<Rightarrow> string option \<Rightarrow> keystore \<Rightarrow> bytes option" where
  "getFromLocalStorage P password st =
     firstParsed P (localStorage st) password [plainKeyName, encryptedKeyName]"

text \<open>
  The same loop over IndexedDB, where the read itself can be rejected: \<open>getFromIndexedDB\<close>
  awaits it outside any \<open>try\<close>.
\<close>

fun firstParsedIndexedDB ::
  "platform \<Rightarrow> env \<Rightarrow> keystore \<Rightarrow> string option \<Rightarrow> string list \<Rightarrow> error + bytes option" where
  "firstParsedIndexedDB P e st password [] = Inr None"
| "firstParsedIndexedDB P e st password (key # keys) =
     (case getDataFromIndexedDB e key st of
        Inl err \<Rightarrow> Inl err
      | Inr None \<Rightarrow> firstParsedIndexedDB P e st password keys
      | Inr (Some stored) \<Rightarrow>
          (case parseStoredKey P stored password of
             Some result \<Rightarrow> Inr (Some result)
           | None \<Rightarrow> firstParsedIndexedDB P e st password keys))"

definition getFromIndexedDB ::
  "platform \<Rightarrow> env \<Rightarrow> string option \<Rightarrow> keystore \<Rightarrow> error + bytes option" where
  "getFromIndexedDB P e password st =
     firstParsedIndexedDB P e st password [plainKeyName, encryptedKeyName]"

text \<open>The \<open>catch\<close> of \<open>getMasterKey\<close> logs the exception and throws it again.\<close>

definition getMasterKey :: "platform \<Rightarrow> env \<Rightarrow> string option \<Rightarrow> keystore \<Rightarrow> error + bytes" where
  "getMasterKey P e password st =
     (case getFromLocalStorage P password st of
        Some keyData \<Rightarrow> Inr keyData
      | None \<Rightarrow>
          (case getFromIndexedDB P e password st of
             Inl err \<Rightarrow> Inl err
           | Inr (Some keyData) \<Rightarrow> Inr keyData
           | Inr None \<Rightarrow> Inl NoMasterKeyFound))"

text \<open>The probe of IndexedDB in \<open>hasMasterKey\<close> is inside a \<open>try\<close> whose \<open>catch\<close> only warns.\<close>

definition hasMasterKey :: "env \<Rightarrow> keystore \<Rightarrow> bool" where
  "hasMasterKey e st =
     (if localStorage st plainKeyName \<noteq> None then True
      else if localStorage st encryptedKeyName \<noteq> None then True
      else
        (case getDataFromIndexedDB e plainKeyName st of
           Inl err \<Rightarrow> False
         | Inr (Some d) \<Rightarrow> True
         | Inr None \<Rightarrow>
             (case getDataFromIndexedDB e encryptedKeyName st of
                Inl err \<Rightarrow> False
              | Inr (Some d) \<Rightarrow> True
              | Inr None \<Rightarrow> False)))"

text \<open>The clear of IndexedDB in \<open>clearAllKeys\<close> is inside a \<open>try\<close> whose \<open>catch\<close> only warns.\<close>

definition clearAllKeys :: "env \<Rightarrow> keystore \<Rightarrow> keystore" where
  "clearAllKeys e st =
     (let st1 = st\<lparr>localStorage :=
                   (\<lambda>key. if startsWith key STORAGE_PREFIX then None else localStorage st key)\<rparr>
      in case clearIndexedDB e st1 of Inl err \<Rightarrow> st1 | Inr st2 \<Rightarrow> st2)"

text \<open>
  \<open>generateAndStoreMasterKey\<close>: the body of the outer \<open>try\<close>, then the function, whose \<open>catch\<close>
  replaces every exception by one error. The write to IndexedDB has a \<open>try\<close> of its own.
\<close>

definition generateAndStore_try ::
  "platform \<Rightarrow> env \<Rightarrow> rng \<Rightarrow> string option \<Rightarrow> keystore \<Rightarrow> error + (string \<times> keystore)" where
  "generateAndStore_try P e g password st =
     (if \<not> cryptoAvailable e then Inl PlatformFailure
      else
        let (keyMaterial, g1) = getRandomValues g 32;
            prepared =
              (if truthy password then
                 (case encryptKeyWithPassword P g1 keyMaterial (the password) of
                    Inl err \<Rightarrow> Inl err
                  | Inr encryptedKey \<Rightarrow>
                      Inr (encryptedKeyName,
                           \<lparr>k_encrypted = True, k_data = encryptedKey, k_timestamp = now e,
                            k_version = KEY_VERSION, k_imported = False\<rparr>))
               else
                 Inr (plainKeyName,
                      \<lparr>k_encrypted = False, k_data = to_hex keyMaterial, k_timestamp = now e,
                       k_version = KEY_VERSION, k_imported = False\<rparr>))
        in case prepared of
             Inl err \<Rightarrow> Inl err
           | Inr (storageKey, keyData) \<Rightarrow>
               if \<not> localStorageWritable e then Inl PlatformFailure
               else
                 let st1 = st\<lparr>localStorage := (localStorage st)(storageKey \<mapsto> keyData)\<rparr>;
                     st2 = (case storeInIndexedDB e storageKey keyData st1 of
                              Inl indexedDBError \<Rightarrow> st1 | Inr s \<Rightarrow> s)
                 in Inr (to_hex keyMaterial, st2))"

definition generateAndStoreMasterKey ::
  "platform \<Rightarrow> env \<Rightarrow> rng \<Rightarrow> string option \<Rightarrow> keystore \<Rightarrow> (error + string) \<times> keystore" where
  "generateAndStoreMasterKey P e g password st =
     (case generateAndStore_try P e g password st of
        Inl err \<Rightarrow> (Inl KeyGenerationFailed, st)
      | Inr (hexKey, st') \<Rightarrow> (Inr hexKey, st'))"






section \<open>SecureCryptoUtils\<close>

text \<open>
  The loaded key \<open>cryptoKey\<close> is \<open>None\<close> until \<open>initialize\<close> has imported the master key; after
  that it is the handle of the raw key bytes.
\<close>

definition encryptChunk :: "platform \<Rightarrow> bytes option \<Rightarrow> rng \<Rightarrow> bytes \<Rightarrow> (error + bytes) \<times> rng" where
  "encryptChunk P cryptoKey g d =
     (case cryptoKey of
        None \<Rightarrow> (Inl NotInitialized, g)
      | Some k \<Rightarrow>
          (let (iv, g1) = getRandomValues g 12
           in case aeadEncrypt P k iv d of
                None \<Rightarrow> (Inl ChunkEncryptionFailed, g1)
              | Some encrypted \<Rightarrow> (Inr (iv @ encrypted), g1)))"

definition decryptChunk :: "platform \<Rightarrow> bytes option \<Rightarrow> bytes \<Rightarrow> error + bytes" where
  "decryptChunk P cryptoKey d =
     (case cryptoKey of
        None \<Rightarrow> Inl NotInitialized
      | Some k \<Rightarrow>
          if length d < 12 then Inl InvalidEncryptedData
          else
            let iv = slice d 0 12;
                encrypted = drop 12 d
            in case aeadDecrypt P k iv encrypted of
                 None \<Rightarrow> Inl ChunkDecryptionFailed
               | Some decrypted \<Rightarrow> Inr decrypted)"

text \<open>
  \<open>combineChunks\<close> allocates \<open>totalLength\<close> zero bytes and copies each chunk to its offset;
  \<open>set_at\<close> is \<open>combined.set(chunk, offset)\<close>.
\<close>

definition set_at :: "bytes \<Rightarrow> bytes \<Rightarrow> nat \<Rightarrow> bytes" where
  "set_at combined chunk offset =
     take offset combined @ chunk @ drop (offset + length chunk) combined"

definition combineChunks :: "bytes list \<Rightarrow> bytes" where
  "combineChunks chunks =
     (let totalLength = foldl (\<lambda>sum chunk. sum + length chunk) 0 chunks
      in fst (foldl (\<lambda>(combined, offset) chunk. (set_at combined chunk offset, offset + length chunk))
                (replicate totalLength 0, 0) chunks))"

definition calculateHash :: "platform \<Rightarrow> bytes \<Rightarrow> error + string" where
  "calculateHash P d = (case sha256 P d of None \<Rightarrow> Inl PlatformFailure | Some h \<Rightarrow> Inr (to_hex h))"

section \<open>FileEncryptionService\<close>

record metadata =
  originalFileName :: string
  originalExtension :: string
  originalSize :: nat
  totalChunks :: nat
  timestamp :: nat
  hash :: string
  hashType :: "string option"
  chunkSize :: nat

text \<open>
  A \<open>File\<close> as the services read it: its name, the bytes \<open>arrayBuffer()\<close> gives, and the object
  that \<open>JSON.parse(await f.text())\<close> gives (\<open>None\<close> when the text is not the JSON of a metadata
  object).
\<close>

record fileObj =
  name :: string
  arrayBuffer :: bytes
  text_json :: "metadata option"

record chunkArtifact =
  blob :: bytes
  filename :: string
  index :: nat

text \<open>\<open>file.name.split('.').pop() || 'bin'\<close>.\<close>

definition fileExtension :: "string \<Rightarrow> string" where
  "fileExtension n =
     (let e = rev (takeWhile (\<lambda>c. c \<noteq> CHR ''.'') (rev n)) in if e = [] then ''bin'' else e)"

text \<open>\<open>s.replace(pat, '')\<close> with a string pattern: the first occurrence is removed.\<close>

fun removeFirst :: "string \<Rightarrow> string \<Rightarrow> string" where
  "removeFirst pat [] = []"
| "removeFirst pat (c # cs) =
     (if startsWith (c # cs) pat then drop (length pat) (c # cs) else c # removeFirst pat cs)"

definition baseName :: "string \<Rightarrow> string" where
  "baseName n = removeFirst (''.'' @ fileExtension n) n"

text \<open>\<open>`${fileName}_chunk_${i.toString().padStart(4, '0')}.enc`\<close>.\<close>

definition chunkFilename :: "string \<Rightarrow> nat \<Rightarrow> string" where
  "chunkFilename fileName i = fileName @ ''_chunk_'' @ padStart 4 (CHR ''0'') (toString10 i) @ ''.enc''"

text \<open>
  \<open>Math.ceil(size / chunkSize)\<close> for a positive chunk size. File sizes are below \<open>2^53\<close>, where
  the floating-point quotient never rounds to an integer it does not equal.
\<close>

definition ceilDiv :: "nat \<Rightarrow> nat \<Rightarrow> nat" where
  "ceilDiv a b = (a + b - 1) div b"

text \<open>
  The loop of \<open>encryptFileGenerator\<close>. The result is the list of artifacts yielded so far and
  either the exception that ended the generator or the chunk hashes.
\<close>

function encrypt_loop ::
  "platform \<Rightarrow> bytes option \<Rightarrow> string \<Rightarrow> bytes \<Rightarrow> nat \<Rightarrow> nat \<Rightarrow> nat \<Rightarrow> rng \<Rightarrow>
   chunkArtifact list \<Rightarrow> string list \<Rightarrow> chunkArtifact list \<times> (error + string list)" where
  "encrypt_loop P cryptoKey fileName f chunkSz nChunks i g yielded chunkHashes =
     (if i < nChunks then
        let start = i * chunkSz;
            stop = min (start + chunkSz) (length f);
            chunkData = slice f start stop
        in case calculateHash P chunkData of
             Inl err \<Rightarrow> (yielded, Inl err)
           | Inr chunkHash \<Rightarrow>
               (case encryptChunk P cryptoKey g chunkData of
                  (Inl err, g1) \<Rightarrow> (yielded, Inl err)
                | (Inr encrypted, g1) \<Rightarrow>
                    encrypt_loop P cryptoKey fileName f chunkSz nChunks (i + 1) g1
                      (yielded @ [\<lparr>blob = encrypted, filename = chunkFilename fileName i, index = i\<rparr>])
                      (chunkHashes @ [chunkHash]))
      else (yielded, Inr chunkHashes))"
  by pat_completeness auto
termination
  by (relation "measure (\<lambda>(P, cryptoKey, fileName, f, chunkSz, nChunks, i, g, yielded, chunkHashes).
        nChunks - i)") auto

declare encrypt_loop.simps [simp del]

text \<open>The plaintext chunk with index \<open>i\<close>: the bytes from \<open>i * chunkSize\<close> up to the next boundary or the end.\<close>

definition plainChunk :: "bytes \<Rightarrow> nat \<Rightarrow> nat \<Rightarrow> bytes" where
  "plainChunk f chunkSz i = slice f (i * chunkSz) (min (i * chunkSz + chunkSz) (length f))"

text \<open>
  \<open>encryptFileGenerator\<close> for a positive chunk size. With a chunk size of 0 the source's chunk
  count is \<open>Infinity\<close> or \<open>NaN\<close>, which is outside this model: the result is \<open>None\<close>. So it
  is for a size from \<open>2 ^ 53\<close> on, where the source's numbers are no longer exact (the size of
  a \<open>File\<close> is always below). The progress
  callbacks and the pauses of the generator do not touch the data and are left out.
\<close>

definition encryptFileGenerator ::
  "platform \<Rightarrow> bytes option \<Rightarrow> rng \<Rightarrow> env \<Rightarrow> fileObj \<Rightarrow> nat \<Rightarrow>
   (chunkArtifact list \<times> (error + metadata)) option" where
  "encryptFileGenerator P cryptoKey g e f chunkSz =
     (if chunkSz = 0 \<or> 2 ^ 53 \<le> chunkSz \<or> 2 ^ 53 \<le> length (arrayBuffer f) then None
      else
        let fileSize = length (arrayBuffer f);
            nChunks = ceilDiv fileSize chunkSz;
            extension = fileExtension (name f);
            fileName = baseName (name f)
        in case encrypt_loop P cryptoKey fileName (arrayBuffer f) chunkSz nChunks 0 g [] [] of
             (yielded, Inl err) \<Rightarrow> Some (yielded, Inl err)
           | (yielded, Inr chunkHashes) \<Rightarrow>
               (case calculateHash P (encode (concat chunkHashes)) of
                  Inl err \<Rightarrow> Some (yielded, Inl err)
                | Inr finalHash \<Rightarrow>
                    Some (yielded,
                          Inr \<lparr>originalFileName = fileName, originalExtension = extension,
                               originalSize = fileSize, totalChunks = nChunks, timestamp = now e,
                               hash = finalHash, hashType = Some ''composite'',
                               chunkSize = chunkSz\<rparr>)))"

section \<open>FileReconstructionService\<close>

text \<open>
  \<open>s.match(/chunk_(\d+)/)\<close>: the leftmost place where \<open>chunk_\<close> is followed by a digit, and
  there the longest run of digits.
\<close>

fun matchHere :: "string \<Rightarrow> string option" where
  "matchHere (c1 # c2 # c3 # c4 # c5 # c6 # d # r) =
     (if [c1, c2, c3, c4, c5, c6] = ''chunk_'' \<and> is_digit d
      then Some (d # takeWhile is_digit r) else None)"
| "matchHere _ = None"

fun chunkMatch :: "string \<Rightarrow> string option" where
  "chunkMatch [] = None"
| "chunkMatch (c # cs) =
     (case matchHere (c # cs) of Some ds \<Rightarrow> Some ds | None \<Rightarrow> chunkMatch cs)"

text \<open>
  A JavaScript number is an IEEE double. \<open>toDouble n\<close> is the double nearest to the natural
  number \<open>n\<close>, ties to the even significand, written as a natural number itself; \<open>2 ^ 1024\<close>
  stands for \<open>Infinity\<close>. Below \<open>2 ^ 53\<close> every natural number is a double.
\<close>

function bitLength :: "nat \<Rightarrow> nat" where
  "bitLength n = (if n = 0 then 0 else Suc (bitLength (n div 2)))"
  by pat_completeness auto
termination
  by (relation "measure id") auto

declare bitLength.simps [simp del]

definition toDouble :: "nat \<Rightarrow> nat" where
  "toDouble n =
     (if n < 2 ^ 53 then n
      else
        let e = bitLength n - 53;
            q = n div 2 ^ e;
            r = n mod 2 ^ e;
            q' = (if 2 ^ e < 2 * r \<or> (2 * r = 2 ^ e \<and> odd q) then q + 1 else q)
        in min (q' * 2 ^ e) (2 ^ 1024))"

text \<open>
  \<open>parseInt\<close> of a string of decimal digits: the double nearest to the number they write.
  The comparator \<open>aNum - bNum\<close> is negative, zero (or \<open>NaN\<close>, which the sort takes for zero)
  or positive as the first double is below, equal to or above the second.
\<close>

definition parseInt :: "string \<Rightarrow> nat" where
  "parseInt ds = toDouble (foldl (\<lambda>a c. 10 * a + ((of_char c :: nat) - 48)) 0 ds)"

text \<open>\<open>aMatch ? parseInt(aMatch[1]) : 0\<close>.\<close>

definition chunkNum :: "string \<Rightarrow> nat" where
  "chunkNum n = (case chunkMatch n of Some ds \<Rightarrow> parseInt ds | None \<Rightarrow> 0)"

text \<open>
  The chunk files in the order the services process them: the files whose name ends in
  \<open>.enc\<close>, sorted with the comparator \<open>aNum - bNum\<close>. \<open>Array.prototype.sort\<close> is stable, as
  \<open>sort_key\<close> is.
\<close>

definition selectChunkFiles :: "fileObj list \<Rightarrow> fileObj list" where
  "selectChunkFiles files = sort_key (\<lambda>f. chunkNum (name f)) (filter (\<lambda>f. endsWith (name f) ''.enc'') files)"

text \<open>
  The decryption loop of \<open>reconstructFromChunks\<close>; its \<open>catch\<close> wraps every exception of an
  iteration with the position \<open>i\<close> and the file name.
\<close>

fun decrypt_loop ::
  "platform \<Rightarrow> bytes option \<Rightarrow> metadata \<Rightarrow> nat \<Rightarrow> fileObj list \<Rightarrow> bytes list \<Rightarrow> string list \<Rightarrow>
   error + (bytes list \<times> string list)" where
  "decrypt_loop P cryptoKey md i [] decryptedChunks chunkHashes = Inr (decryptedChunks, chunkHashes)"
| "decrypt_loop P cryptoKey md i (f # fs) decryptedChunks chunkHashes =
     (case decryptChunk P cryptoKey (arrayBuffer f) of
        Inl err \<Rightarrow> Inl (ChunkDecryptFailure i (name f) err)
      | Inr decrypted \<Rightarrow>
          if hashType md = Some ''composite'' then
            (case calculateHash P decrypted of
               Inl err \<Rightarrow> Inl (ChunkDecryptFailure i (name f) err)
             | Inr chunkHash \<Rightarrow>
                 decrypt_loop P cryptoKey md (i + 1) fs (decryptedChunks @ [decrypted])
                   (chunkHashes @ [chunkHash]))
          else decrypt_loop P cryptoKey md (i + 1) fs (decryptedChunks @ [decrypted]) chunkHashes)"

record reconstruction =
  success :: bool
  reconstructed :: "bytes list"
  r_metadata :: metadata
  hashMatch :: bool
  chunkFiles :: "fileObj list"
  downloaded :: "string \<times> bytes"

text \<open>The name and the content of the download: a \<open>Blob\<close> of the decrypted chunks in order.\<close>

definition reconstructedDownload :: "metadata \<Rightarrow> bytes list \<Rightarrow> string \<times> bytes" where
  "reconstructedDownload md decryptedChunks =
     (originalFileName md @ ''_reconstructed.'' @ originalExtension md, concat decryptedChunks)"

text \<open>
  \<open>reconstructFromChunks\<close>; \<open>confirmed\<close> is the answer the user gives to the dialogue that
  \<open>confirm\<close> opens after a hash mismatch.
\<close>

definition reconstructFromChunks ::
  "platform \<Rightarrow> bytes option \<Rightarrow> bool \<Rightarrow> fileObj list \<Rightarrow> error + reconstruction" where
  "reconstructFromChunks P cryptoKey confirmed files =
     (case find (\<lambda>f. endsWith (name f) ''_metadata.json'') files of
        None \<Rightarrow> Inl MetadataNotFound
      | Some metadataFile \<Rightarrow>
          (case text_json metadataFile of
             None \<Rightarrow> Inl PlatformFailure
           | Some md \<Rightarrow>
               let cfs = selectChunkFiles files
               in if length cfs \<noteq> totalChunks md
                  then Inl (ChunkCountMismatch (int (totalChunks md) - int (length cfs))
                              (totalChunks md) (length cfs))
                  else
                    (case decrypt_loop P cryptoKey md 0 cfs [] [] of
                       Inl err \<Rightarrow> Inl err
                     | Inr (decryptedChunks, chunkHashes) \<Rightarrow>
                         (case (if hashType md = Some ''composite'' then
                                  (case calculateHash P (encode (concat chunkHashes)) of
                                     Inl err \<Rightarrow> Inl err
                                   | Inr finalHash \<Rightarrow> Inr (finalHash = hash md))
                                else
                                  (case calculateHash P (combineChunks decryptedChunks) of
                                     Inl err \<Rightarrow> Inr True
                                   | Inr reconstructedHash \<Rightarrow> Inr (reconstructedHash = hash md))) of
                            Inl err \<Rightarrow> Inl err
                          | Inr hm \<Rightarrow>
                              if \<not> hm \<and> \<not> confirmed then Inl UserCancelled
                              else Inr \<lparr>success = True, reconstructed = decryptedChunks,
                                        r_metadata = md, hashMatch = hm, chunkFiles = cfs,
                                        downloaded = reconstructedDownload md decryptedChunks\<rparr>))))"

text \<open>
  \<open>reconstructFromZip\<close> on the entries of the loaded archive, in the order of
  \<open>Object.keys(zip.files)\<close>. Its loop has no \<open>catch\<close>, so an exception leaves as it is.
\<close>

fun zip_loop ::
  "platform \<Rightarrow> bytes option \<Rightarrow> metadata \<Rightarrow> fileObj list \<Rightarrow> bytes list \<Rightarrow> string list \<Rightarrow>
   error + (bytes list \<times> string list)" where
  "zip_loop P cryptoKey md [] decryptedChunks chunkHashes = Inr (decryptedChunks, chunkHashes)"
| "zip_loop P cryptoKey md (f # fs) decryptedChunks chunkHashes =
     (case decryptChunk P cryptoKey (arrayBuffer f) of
        Inl err \<Rightarrow> Inl err
      | Inr decrypted \<Rightarrow>
          if hashType md = Some ''composite'' then
            (case calculateHash P decrypted of
               Inl err \<Rightarrow> Inl err
             | Inr chunkHash \<Rightarrow>
                 zip_loop P cryptoKey md fs (decryptedChunks @ [decrypted]) (chunkHashes @ [chunkHash]))
          else zip_loop P cryptoKey md fs (decryptedChunks @ [decrypted]) chunkHashes)"

record zipReconstruction =
  z_success :: bool
  z_message :: string
  z_downloaded :: "string \<times> bytes"

definition reconstructFromZip ::
  "platform \<Rightarrow> bytes option \<Rightarrow> bool \<Rightarrow> fileObj list \<Rightarrow> error + zipReconstruction" where
  "reconstructFromZip P cryptoKey confirmed entries =
     (case find (\<lambda>f. endsWith (name f) ''_metadata.json'') entries of
        None \<Rightarrow> Inl MetadataNotFound
      | Some metadataFile \<Rightarrow>
          (case text_json metadataFile of
             None \<Rightarrow> Inl PlatformFailure
           | Some md \<Rightarrow>
               let cfs = selectChunkFiles entries
               in case zip_loop P cryptoKey md cfs [] [] of
                    Inl err \<Rightarrow> Inl err
                  | Inr (decryptedChunks, chunkHashes) \<Rightarrow>
                      (case (if hashType md = Some ''composite'' then
                               (case calculateHash P (encode (concat chunkHashes)) of
                                  Inl err \<Rightarrow> Inl err
                                | Inr finalHash \<Rightarrow> Inr (finalHash = hash md))
                             else
                               (case calculateHash P (combineChunks decryptedChunks) of
                                  Inl err \<Rightarrow> Inl err
                                | Inr reconstructedHash \<Rightarrow> Inr (reconstructedHash = hash md))) of
                         Inl err \<Rightarrow> Inl err
                       | Inr hm \<Rightarrow>
                           if \<not> hm \<and> \<not> confirmed then Inl UserCancelled
                           else Inr \<lparr>z_success = True, z_message = ''File reconstructed from ZIP!'',
                                     z_downloaded = reconstructedDownload md decryptedChunks\<rparr>)))"


section \<open>A small provider and closed inputs\<close>

text \<open>
  A provider that meets the contract of an authenticated cipher without hiding anything:
  the ciphertext carries the key, the IV and the plaintext, and decryption accepts exactly
  the ciphertexts made under its key and IV. The digest is the identity and the derived key
  is the password followed by the salt. It serves to run the services on closed inputs.
\<close>

definition demoPlatform :: platform where
  "demoPlatform =
     \<lparr>aeadEncrypt = (\<lambda>k iv p. Some (k @ iv @ p)),
      aeadDecrypt = (\<lambda>k iv c. if take (length k + length iv) c = k @ iv
                                then Some (drop (length k + length iv) c) else None),
      sha256 = (\<lambda>d. Some d),
      pbkdf2 = (\<lambda>pw salt. pw @ salt)\<rparr>"

definition zeroRng :: rng where
  "zeroRng = (\<lambda>i. 0)"

definition envOk :: env where
  "envOk = \<lparr>cryptoAvailable = True, localStorageWritable = True, indexedDBWorks = True,
            indexedDBThrows = False, now = 0\<rparr>"

definition envIndexedDBDown :: env where
  "envIndexedDBDown = \<lparr>cryptoAvailable = True, localStorageWritable = True, indexedDBWorks = False,
                       indexedDBThrows = False, now = 0\<rparr>"

text \<open>A state whose only record is a password-wrapped key, present in both stores.\<close>

definition wrappedOnly :: "string \<Rightarrow> keystore" where
  "wrappedOnly d =
     (let r = \<lparr>k_encrypted = True, k_data = d, k_timestamp = 0, k_version = KEY_VERSION,
               k_imported = False\<rparr>
      in \<lparr>localStorage = [encryptedKeyName \<mapsto> r], indexedDB = [encryptedKeyName \<mapsto> r]\<rparr>)"

text \<open>A provider whose digest runs out of memory on a buffer of more than two bytes.\<close>

definition smallDigestPlatform :: platform where
  "smallDigestPlatform = demoPlatform\<lparr>sha256 := (\<lambda>d. if 2 < length d then None else Some d)\<rparr>"

text \<open>
  The chunk that \<open>encryptChunk\<close> makes of the plaintext \<open>p\<close> under the key \<open>[1]\<close>, the provider
  above and the random stream of zeros, and a chunk file of that content.
\<close>

definition demoChunk :: "bytes \<Rightarrow> bytes" where
  "demoChunk p = replicate 12 0 @ [1] @ replicate 12 0 @ p"

definition demoChunkFile :: "string \<Rightarrow> bytes \<Rightarrow> fileObj" where
  "demoChunkFile n p = \<lparr>name = n, arrayBuffer = demoChunk p, text_json = None\<rparr>"

definition demoMetadata :: "nat \<Rightarrow> string \<Rightarrow> string option \<Rightarrow> metadata" where
  "demoMetadata n h t =
     \<lparr>originalFileName = ''a'', originalExtension = ''txt'', originalSize = 4, totalChunks = n,
      timestamp = 0, hash = h, hashType = t, chunkSize = 2\<rparr>"

definition demoMetadataFile :: "metadata \<Rightarrow> fileObj" where
  "demoMetadataFile md = \<lparr>name = ''a_metadata.json'', arrayBuffer = [], text_json = Some md\<rparr>"

text \<open>
  Five chunks declared and four supplied; and two chunks supplied out of order, whose names
  compare the other way round as strings.
\<close>

definition fourOfFive :: "fileObj list" where
  "fourOfFive =
     [demoMetadataFile (demoMetadata 5 ''00'' (Some ''composite'')),
      demoChunkFile ''a_chunk_0000.enc'' [1], demoChunkFile ''a_chunk_0001.enc'' [2],
      demoChunkFile ''a_chunk_0002.enc'' [3], demoChunkFile ''a_chunk_0003.enc'' [4]]"



text \<open>
  A legacy upload of one chunk of three bytes whose recorded hash is wrong, and the entries
  of an archive that declares two chunks and holds the first one only.
\<close>

definition legacyUpload :: "fileObj list" where
  "legacyUpload =
     [demoMetadataFile (demoMetadata 1 ''bogus'' None), demoChunkFile ''a_chunk_0000.enc'' [1, 2, 3]]"

definition legacyResult :: reconstruction where
  "legacyResult =
     \<lparr>success = True, reconstructed = [[1, 2, 3]], r_metadata = demoMetadata 1 ''bogus'' None,
      hashMatch = True, chunkFiles = [demoChunkFile ''a_chunk_0000.enc'' [1, 2, 3]],
      downloaded = (''a_reconstructed.txt'', [1, 2, 3])\<rparr>"

definition oneOfTwo :: "fileObj list" where
  "oneOfTwo =
     [demoMetadataFile (demoMetadata 2 ''3031303230333034'' (Some ''composite'')),
      demoChunkFile ''a_chunk_0000.enc'' [1, 2]]"





















section \<open>Properties of the key vault\<close>

lemma storage_names_distinct: "plainKeyName \<noteq> encryptedKeyName"
  by (simp add: plainKeyName_def encryptedKeyName_def STORAGE_PREFIX_def MASTER_KEY_ID_def KEY_VERSION_def)

lemma plainKeyName_prefixed: "startsWith plainKeyName STORAGE_PREFIX"
  by (simp add: startsWith_def plainKeyName_def)

lemma encryptedKeyName_prefixed: "startsWith encryptedKeyName STORAGE_PREFIX"
  by (simp add: startsWith_def encryptedKeyName_def)

text \<open>
  C3, at the state the claim is about: the only record is encrypted and no password is
  given. \<open>parseStoredKey\<close> throws \<open>Password required for encrypted key\<close> inside its own \<open>try\<close>,
  whose \<open>catch\<close> returns \<open>null\<close>, so \<open>getMasterKey\<close> reports that no master key was found
  (or, when \<open>indexedDB.open\<close> throws, that exception).
\<close>

theorem getMasterKey_wrapped_no_password:
  "getMasterKey P e None (wrappedOnly d) =
     (if indexedDBWorks e then Inl NoMasterKeyFound
      else if indexedDBThrows e then Inl PlatformFailure
      else Inl NoMasterKeyFound)"
  using storage_names_distinct
  by (simp add: getMasterKey_def getFromLocalStorage_def getFromIndexedDB_def
      getDataFromIndexedDB_def wrappedOnly_def Let_def parseStoredKey_def
      parseStoredKey_try_def truthy_def)

text \<open>
  The other two parts of C3 hold: the primary store is read first, and an empty state has no
  key. No state, password or surroundings make \<open>getMasterKey\<close> fail with the
  password-required error.
\<close>

lemma getMasterKey_primary_first:
  "getFromLocalStorage P pw st = Some k \<Longrightarrow> getMasterKey P e pw st = Inr k"
  by (simp add: getMasterKey_def)

lemma getMasterKey_falls_back:
  "getFromLocalStorage P pw st = None \<Longrightarrow>
   getMasterKey P e pw st =
     (case getFromIndexedDB P e pw st of
        Inl err \<Rightarrow> Inl err | Inr (Some k) \<Rightarrow> Inr k | Inr None \<Rightarrow> Inl NoMasterKeyFound)"
  by (simp add: getMasterKey_def)

lemma getMasterKey_emptyStore:
  "getMasterKey P e pw emptyStore =
     (if indexedDBWorks e then Inl NoMasterKeyFound
      else if indexedDBThrows e then Inl PlatformFailure
      else Inl NoMasterKeyFound)"
  by (simp add: getMasterKey_def getFromLocalStorage_def getFromIndexedDB_def
      getDataFromIndexedDB_def emptyStore_def)

lemma firstParsedIndexedDB_error:
  "firstParsedIndexedDB P e st pw keys = Inl err \<Longrightarrow> err = PlatformFailure"
  by (induction keys)
    (auto simp: getDataFromIndexedDB_def split: sum.splits option.splits if_splits)

lemma getMasterKey_never_PasswordRequired: "getMasterKey P e pw st \<noteq> Inl PasswordRequired"
proof
  assume a: "getMasterKey P e pw st = Inl PasswordRequired"
  then have "getFromIndexedDB P e pw st = Inl PasswordRequired"
    by (auto simp: getMasterKey_def split: option.splits sum.splits)
  then show False
    using firstParsedIndexedDB_error[of P e st pw "[plainKeyName, encryptedKeyName]" PasswordRequired]
    by (simp add: getFromIndexedDB_def)
qed

lemma parseStoredKey_never_PasswordRequired:
  "parseStoredKey P stored None = (if k_encrypted stored then None
     else (case from_hex (k_data stored) of Inl err \<Rightarrow> None | Inr k \<Rightarrow> Some k))"
  by (simp add: parseStoredKey_def parseStoredKey_try_def truthy_def split: sum.splits)


lemma generate_success_primary:
  assumes "generateAndStoreMasterKey P e g pw st = (Inr h, st')"
  shows "localStorage st' plainKeyName \<noteq> None \<or> localStorage st' encryptedKeyName \<noteq> None"
  using assms
  by (auto simp: generateAndStoreMasterKey_def generateAndStore_try_def Let_def storeInIndexedDB_def
      split: sum.splits prod.splits if_splits)

lemma hasMasterKey_primary:
  "localStorage st plainKeyName \<noteq> None \<or> localStorage st encryptedKeyName \<noteq> None \<Longrightarrow>
   hasMasterKey e st"
  unfolding hasMasterKey_def by (cases "localStorage st plainKeyName = None") simp_all

lemma hasMasterKey_emptyStore: "\<not> hasMasterKey e emptyStore"
  by (simp add: hasMasterKey_def emptyStore_def getDataFromIndexedDB_def)

text \<open>
  After \<open>clearAllKeys\<close> the primary store holds no key record. The probe is true exactly when
  the clear of IndexedDB failed (which \<open>clearIndexedDB\<close> resolves silently), IndexedDB can be
  read at the probe, and it still holds a key record.
\<close>

lemma hasMasterKey_after_clear:
  "hasMasterKey e' (clearAllKeys e st) =
     (\<not> indexedDBWorks e \<and> indexedDBWorks e' \<and>
      (indexedDB st plainKeyName \<noteq> None \<or> indexedDB st encryptedKeyName \<noteq> None))"
  using plainKeyName_prefixed encryptedKeyName_prefixed
  by (auto simp: hasMasterKey_def clearAllKeys_def clearIndexedDB_def getDataFromIndexedDB_def Let_def
      split: option.splits)

lemma demo_generate_fst:
  "fst (generateAndStoreMasterKey demoPlatform envOk zeroRng pw emptyStore) =
     Inr (to_hex (replicate 32 0))"
  by (simp add: generateAndStoreMasterKey_def generateAndStore_try_def Let_def storeInIndexedDB_def
      envOk_def getRandomValues_def zeroRng_def encryptKeyWithPassword_def demoPlatform_def
      map_replicate_const split: prod.splits)

lemma demo_generate_indexedDB:
  "indexedDB (snd (generateAndStoreMasterKey demoPlatform envOk zeroRng None emptyStore)) plainKeyName
     \<noteq> None"
  by (simp add: generateAndStoreMasterKey_def generateAndStore_try_def Let_def storeInIndexedDB_def
      envOk_def truthy_def getRandomValues_def split: prod.splits)

text \<open>
  C9 as the code has it: \<open>hasMasterKey\<close> is false in the empty state, true in the state a
  successful \<open>generateAndStoreMasterKey\<close> leaves (whatever the password and whatever IndexedDB
  does), and false in the state \<open>clearAllKeys\<close> leaves when its clear of IndexedDB went
  through.
\<close>

theorem hasMasterKey_lifecycle:
  "\<not> hasMasterKey e0 emptyStore \<and>
   (generateAndStoreMasterKey P e g pw st = (Inr h, st') \<longrightarrow> hasMasterKey e1 st') \<and>
   (indexedDBWorks e2 \<longrightarrow> \<not> hasMasterKey e3 (clearAllKeys e2 st2))"
proof (intro conjI impI)
  show "\<not> hasMasterKey e0 emptyStore"
    by (rule hasMasterKey_emptyStore)
next
  assume "generateAndStoreMasterKey P e g pw st = (Inr h, st')"
  from generate_success_primary[OF this] show "hasMasterKey e1 st'"
    by (rule hasMasterKey_primary)
next
  assume "indexedDBWorks e2"
  then show "\<not> hasMasterKey e3 (clearAllKeys e2 st2)"
    by (simp add: hasMasterKey_after_clear)
qed

theorem hasMasterKey_lifecycle_witness:
  "\<not> hasMasterKey envOk emptyStore \<and>
   fst (generateAndStoreMasterKey demoPlatform envOk zeroRng (Some ''pw'') emptyStore) =
     Inr (to_hex (replicate 32 0)) \<and>
   hasMasterKey envIndexedDBDown
     (snd (generateAndStoreMasterKey demoPlatform envOk zeroRng (Some ''pw'') emptyStore)) \<and>
   indexedDBWorks envOk \<and>
   \<not> hasMasterKey envOk (clearAllKeys envOk
        (snd (generateAndStoreMasterKey demoPlatform envOk zeroRng (Some ''pw'') emptyStore)))"
proof -
  let ?r = "generateAndStoreMasterKey demoPlatform envOk zeroRng (Some ''pw'') emptyStore"
  have run: "?r = (Inr (to_hex (replicate 32 0)), snd ?r)"
    using demo_generate_fst[of "Some ''pw''"] by (simp add: prod_eq_iff)
  have ok: "indexedDBWorks envOk"
    by (simp add: envOk_def)
  note L = hasMasterKey_lifecycle[of envOk demoPlatform envOk zeroRng "Some ''pw''" emptyStore
      "to_hex (replicate 32 0)" "snd ?r" envIndexedDBDown envOk envOk "snd ?r"]
  have a: "\<not> hasMasterKey envOk emptyStore"
    by (rule L[THEN conjunct1])
  have b: "hasMasterKey envIndexedDBDown (snd ?r)"
    by (rule L[THEN conjunct2, THEN conjunct1, THEN mp, OF run])
  have c: "\<not> hasMasterKey envOk (clearAllKeys envOk (snd ?r))"
    by (rule L[THEN conjunct2, THEN conjunct2, THEN mp, OF ok])
  have d: "fst ?r = Inr (to_hex (replicate 32 0))"
    by (rule demo_generate_fst)
  show ?thesis
    by (intro conjI) (fact a b c d ok)+
qed

text \<open>
  The claim's last part fails when the clear of IndexedDB does not go through: the key
  generated without a password is still found there afterwards.
\<close>

theorem hasMasterKey_after_failed_clear:
  "hasMasterKey envOk (clearAllKeys envIndexedDBDown
     (snd (generateAndStoreMasterKey demoPlatform envOk zeroRng None emptyStore)))"
  using demo_generate_indexedDB
  by (simp add: hasMasterKey_after_clear envOk_def envIndexedDBDown_def)

section \<open>Properties of chunk decryption\<close>

lemma decryptChunk_not_initialized: "decryptChunk P None d = Inl NotInitialized"
  by (simp add: decryptChunk_def)

text \<open>
  C10 as the code has it: an input of fewer than 12 bytes is rejected before any slice or
  decryption, whatever the provider is; with a key loaded the error is the invalid-data
  error, and with no key loaded the earlier guard gives the not-initialised error.
\<close>

theorem decryptChunk_short_input:
  "length d < 12 \<Longrightarrow>
   decryptChunk P (Some k) d = Inl InvalidEncryptedData \<and>
   decryptChunk P None d = Inl NotInitialized"
  by (simp add: decryptChunk_def)

theorem decryptChunk_short_input_witness:
  "length [1, 2, 3 :: byte] < 12 \<and>
   decryptChunk demoPlatform (Some [9]) [1, 2, 3] = Inl InvalidEncryptedData \<and>
   decryptChunk demoPlatform None [1, 2, 3] = Inl NotInitialized"
  using decryptChunk_short_input[of "[1, 2, 3]" demoPlatform "[9]"] by simp

text \<open>
  The claim as worded fails where no key is loaded: a short input then gets the
  not-initialised error, not the invalid-data error.
\<close>

theorem decryptChunk_short_input_no_key:
  "length [1, 2, 3 :: byte] < 12 \<and>
   decryptChunk demoPlatform None [1, 2, 3] = Inl NotInitialized \<and>
   decryptChunk demoPlatform None [1, 2, 3] \<noteq> Inl InvalidEncryptedData"
  by (simp add: decryptChunk_not_initialized)

section \<open>The number parsed from a chunk file name\<close>























section \<open>Properties of reconstruction\<close>

text \<open>\<open>combineChunks\<close> is the concatenation of the chunks.\<close>

lemma total_length_foldl:
  "foldl (\<lambda>sum chunk. sum + length chunk) n chunks = n + length (concat chunks)"
  by (induction chunks arbitrary: n) auto

lemma combine_foldl:
  "foldl (\<lambda>(combined, offset) chunk. (set_at combined chunk offset, offset + length chunk))
     (done @ replicate (length (concat rest)) 0, length done) rest
   = (done @ concat rest, length done + length (concat rest))"
proof (induction rest arbitrary: "done")
  case Nil
  then show ?case by simp
next
  case (Cons c rest)
  have "set_at (done @ replicate (length (concat (c # rest))) 0) c (length done)
        = (done @ c) @ replicate (length (concat rest)) 0"
    by (simp add: set_at_def replicate_add[symmetric] del: replicate_add)
  then show ?case
    using Cons.IH[of "done @ c"] by (simp add: add.assoc)
qed

lemma combineChunks_concat: "combineChunks chunks = concat chunks"
  using combine_foldl[of "[]" chunks]
  by (simp add: combineChunks_def total_length_foldl)

text \<open>The decryption loop when every chunk decrypts, without and with chunk hashes.\<close>

lemma decrypt_loop_legacy:
  assumes "hashType md \<noteq> Some ''composite''"
    and "map (\<lambda>f. decryptChunk P key (arrayBuffer f)) fs = map Inr ds"
  shows "decrypt_loop P key md i fs dc hs = Inr (dc @ ds, hs)"
  using assms(2)
proof (induction fs arbitrary: i dc ds)
  case Nil
  then show ?case by simp
next
  case (Cons f fs)
  then obtain d ds' where ds: "ds = d # ds'" by (cases ds) auto
  with Cons.prems have d: "decryptChunk P key (arrayBuffer f) = Inr d"
    and rest: "map (\<lambda>f. decryptChunk P key (arrayBuffer f)) fs = map Inr ds'"
    by auto
  show ?case
    using assms(1) d Cons.IH[OF rest, of "i + 1" "dc @ [d]"] by (simp add: ds)
qed








lemmas run_defs = reconstructFromChunks_def selectChunkFiles_def chunkNum_def parseInt_def toDouble_def
  is_digit_def
  endsWith_def decryptChunk_def slice_def calculateHash_def combineChunks_def set_at_def
  reconstructedDownload_def to_hex_def padStart_def digit_char_def encode_def utf8_char_def
  demoPlatform_def demoChunk_def demoChunkFile_def demoMetadata_def demoMetadataFile_def Let_def
  toString16.simps char_of_eq_iff

lemma fourOfFive_run:
  "reconstructFromChunks demoPlatform (Some [1]) False fourOfFive = Inl (ChunkCountMismatch 1 5 4)"
  by (simp add: run_defs fourOfFive_def)






lemma chunkNum_rounds:
  "chunkNum ''a_chunk_9007199254740993.enc'' = 9007199254740992 \<and>
   chunkNum ''a_chunk_9007199254740992.enc'' = 9007199254740992"
  by (simp add: chunkNum_def parseInt_def toDouble_def is_digit_def bitLength.simps Let_def)



text \<open>
  C8: on the legacy path, when every chunk decrypts, the decrypted chunks are concatenated
  and the digest of the whole buffer is compared with the recorded hash; when the digest
  cannot be computed the verdict is \<open>True\<close> and the file is delivered without any question,
  whatever the recorded hash is.
\<close>

theorem legacy_verification:
  assumes "find (\<lambda>f. endsWith (name f) ''_metadata.json'') files = Some mf"
    and "text_json mf = Some md"
    and "hashType md \<noteq> Some ''composite''"
    and "length (selectChunkFiles files) = totalChunks md"
    and "map (\<lambda>f. decryptChunk P key (arrayBuffer f)) (selectChunkFiles files) = map Inr dcs"
  shows "reconstructFromChunks P key confirmed files =
     (case sha256 P (concat dcs) of
        None \<Rightarrow>
          Inr \<lparr>success = True, reconstructed = dcs, r_metadata = md, hashMatch = True,
               chunkFiles = selectChunkFiles files, downloaded = reconstructedDownload md dcs\<rparr>
      | Some h \<Rightarrow>
          if to_hex h = hash md then
            Inr \<lparr>success = True, reconstructed = dcs, r_metadata = md, hashMatch = True,
                 chunkFiles = selectChunkFiles files, downloaded = reconstructedDownload md dcs\<rparr>
          else if confirmed then
            Inr \<lparr>success = True, reconstructed = dcs, r_metadata = md, hashMatch = False,
                 chunkFiles = selectChunkFiles files, downloaded = reconstructedDownload md dcs\<rparr>
          else Inl UserCancelled)"
proof -
  have loop: "decrypt_loop P key md 0 (selectChunkFiles files) [] [] = Inr (dcs, [])"
    using decrypt_loop_legacy[OF assms(3) assms(5), of 0 "[]" "[]"] by simp
  show ?thesis
    using assms(1-4) loop
    by (simp add: reconstructFromChunks_def Let_def calculateHash_def combineChunks_concat
        split: option.splits)
qed

theorem legacy_verification_witness:
  "find (\<lambda>f. endsWith (name f) ''_metadata.json'') legacyUpload
     = Some (demoMetadataFile (demoMetadata 1 ''bogus'' None)) \<and>
   text_json (demoMetadataFile (demoMetadata 1 ''bogus'' None)) = Some (demoMetadata 1 ''bogus'' None) \<and>
   hashType (demoMetadata 1 ''bogus'' None) \<noteq> Some ''composite'' \<and>
   length (selectChunkFiles legacyUpload) = totalChunks (demoMetadata 1 ''bogus'' None) \<and>
   map (\<lambda>f. decryptChunk smallDigestPlatform (Some [1]) (arrayBuffer f)) (selectChunkFiles legacyUpload)
     = map Inr [[1, 2, 3]] \<and>
   sha256 smallDigestPlatform (concat [[1, 2, 3]]) = None \<and>
   reconstructFromChunks smallDigestPlatform (Some [1]) False legacyUpload = Inr legacyResult \<and>
   hashMatch legacyResult"
proof -
  let ?md = "demoMetadata 1 ''bogus'' None"
  have sel: "selectChunkFiles legacyUpload = [demoChunkFile ''a_chunk_0000.enc'' [1, 2, 3]]"
    by (simp add: selectChunkFiles_def legacyUpload_def demoMetadataFile_def demoChunkFile_def endsWith_def)
  have a1: "find (\<lambda>f. endsWith (name f) ''_metadata.json'') legacyUpload = Some (demoMetadataFile ?md)"
    by (simp add: legacyUpload_def demoMetadataFile_def demoChunkFile_def endsWith_def)
  have a2: "text_json (demoMetadataFile ?md) = Some ?md"
    by (simp add: demoMetadataFile_def)
  have a3: "hashType ?md \<noteq> Some ''composite''"
    by (simp add: demoMetadata_def)
  have a4: "length (selectChunkFiles legacyUpload) = totalChunks ?md"
    by (simp add: sel demoMetadata_def)
  have a5: "map (\<lambda>f. decryptChunk smallDigestPlatform (Some [1]) (arrayBuffer f)) (selectChunkFiles legacyUpload)
      = map Inr [[1, 2, 3]]"
    by (simp add: sel demoChunkFile_def demoChunk_def decryptChunk_def slice_def
        smallDigestPlatform_def demoPlatform_def)
  have d: "sha256 smallDigestPlatform (concat [[1, 2, 3]]) = None"
    by (simp add: smallDigestPlatform_def)
  have r: "reconstructFromChunks smallDigestPlatform (Some [1]) False legacyUpload = Inr legacyResult"
    using legacy_verification[OF a1 a2 a3 a4 a5, of False] d
    by (simp add: sel legacyResult_def reconstructedDownload_def demoMetadata_def)
  have h: "hashMatch legacyResult"
    by (simp add: legacyResult_def)
  show ?thesis
    using a1 a2 a3 a4 a5 d r h by (intro conjI) blast+
qed

section \<open>Reconstruction from an archive\<close>

text \<open>
  C4, at an archive that declares two chunks and holds one. \<open>reconstructFromZip\<close> sorts the
  chunk entries and never compares their number with \<open>totalChunks\<close>: it decrypts the one
  entry, finds the composite hash different, and after the user's confirmation delivers the
  first two bytes as the file (without the confirmation the user's refusal is the error).
  The loose-file path stops the same files with the count mismatch.
\<close>

theorem reconstructFromZip_no_count_check:
  "reconstructFromZip demoPlatform (Some [1]) True oneOfTwo =
     Inr \<lparr>z_success = True, z_message = ''File reconstructed from ZIP!'',
          z_downloaded = (''a_reconstructed.txt'', [1, 2])\<rparr> \<and>
   reconstructFromZip demoPlatform (Some [1]) False oneOfTwo = Inl UserCancelled \<and>
   reconstructFromChunks demoPlatform (Some [1]) True oneOfTwo = Inl (ChunkCountMismatch 1 2 1)"
  by (simp add: reconstructFromZip_def run_defs oneOfTwo_def)

lemma zip_loop_no_count_mismatch:
  "zip_loop P key md fs dc hs \<noteq> Inl (ChunkCountMismatch a b c)"
  by (induction fs arbitrary: dc hs) (auto simp: decryptChunk_def calculateHash_def Let_def
      split: option.splits sum.splits if_splits)

lemma reconstructFromZip_never_count_mismatch:
  "reconstructFromZip P key confirmed entries \<noteq> Inl (ChunkCountMismatch a b c)"
  using zip_loop_no_count_mismatch[of P key _ "selectChunkFiles entries" "[]" "[]" a b c]
  by (auto simp: reconstructFromZip_def Let_def calculateHash_def
      split: option.splits sum.splits if_splits prod.splits)

section \<open>Properties of the encryption pipeline\<close>








lemma encrypt_loop_done:
  "\<not> i < n \<Longrightarrow> encrypt_loop P cryptoKey base f cs n i g ys hs = (ys, Inr hs)"
  by (subst encrypt_loop.simps) simp

lemma encrypt_loop_step:
  "i < n \<Longrightarrow>
   encrypt_loop P cryptoKey base f cs n i g ys hs =
     (case calculateHash P (plainChunk f cs i) of
        Inl err \<Rightarrow> (ys, Inl err)
      | Inr h \<Rightarrow>
          (case encryptChunk P cryptoKey g (plainChunk f cs i) of
             (Inl err, g1) \<Rightarrow> (ys, Inl err)
           | (Inr e, g1) \<Rightarrow>
               encrypt_loop P cryptoKey base f cs n (i + 1) g1
                 (ys @ [\<lparr>blob = e, filename = chunkFilename base i, index = i\<rparr>]) (hs @ [h])))"
  unfolding plainChunk_def by (subst encrypt_loop.simps) (simp add: Let_def)


text \<open>With a key loaded and a provider that rejects nothing, the loop ends without an exception.\<close>

lemma encrypt_loop_total:
  assumes "\<And>d. sha256 P d \<noteq> None" and "\<And>iv d. aeadEncrypt P k iv d \<noteq> None"
  shows "\<exists>ys' hs'. encrypt_loop P (Some k) base f cs n i g ys hs = (ys', Inr hs')"
proof (induction "n - i" arbitrary: i g ys hs)
  case 0
  then have "\<not> i < n" by simp
  then show ?case by (simp add: encrypt_loop_done)
next
  case (Suc m)
  then have lt: "i < n" and m: "m = n - (i + 1)" by simp_all
  obtain d where d: "sha256 P (plainChunk f cs i) = Some d"
    using assms(1)[of "plainChunk f cs i"] by auto
  obtain c where c: "aeadEncrypt P k (map g [0..<12]) (plainChunk f cs i) = Some c"
    using assms(2)[of "map g [0..<12]" "plainChunk f cs i"] by auto
  have "encrypt_loop P (Some k) base f cs n i g ys hs =
        encrypt_loop P (Some k) base f cs n (i + 1) (\<lambda>j. g (j + 12))
          (ys @ [\<lparr>blob = map g [0..<12] @ c, filename = chunkFilename base i, index = i\<rparr>])
          (hs @ [to_hex d])"
    by (simp add: encrypt_loop_step[OF lt] calculateHash_def d encryptChunk_def
          getRandomValues_def c)
  with Suc.hyps(1)[OF m] show ?case by simp
qed

lemma encryptFileGenerator_total:
  assumes "\<And>d. sha256 P d \<noteq> None" and "\<And>iv d. aeadEncrypt P k iv d \<noteq> None"
    and "0 < cs" and "cs < 2 ^ 53" and "length (arrayBuffer f) < 2 ^ 53"
  shows "\<exists>arts md. encryptFileGenerator P (Some k) g e f cs = Some (arts, Inr md)"
proof -
  obtain ys hs where l: "encrypt_loop P (Some k) (baseName (name f)) (arrayBuffer f) cs
       (ceilDiv (length (arrayBuffer f)) cs) 0 g [] [] = (ys, Inr hs)"
    using encrypt_loop_total[OF assms(1,2)] by blast
  obtain d where d: "sha256 P (encode (concat hs)) = Some d"
    using assms(1)[of "encode (concat hs)"] by auto
  show ?thesis
    using assms(3-5) by (simp add: encryptFileGenerator_def Let_def l calculateHash_def d)
qed





section \<open>Tampered chunks\<close>











section \<open>Round trip\<close>

















section \<open>Hexadecimal text\<close>









section \<open>Backup and import\<close>















end
